theory Spec2Isabelle
  imports Main "HOL-Library.Word"
begin

unbundle bit_operations_syntax

section \<open>Strings, bytes and runes\<close>

text \<open>
  A Go \<open>string\<close> is a sequence of bytes and is modelled as \<^typ>\<open>string\<close> (a list of
  8-bit characters); a \<open>[]byte\<close> is a list of 8-bit words. A \<open>rune\<close> read out of a
  string is a code point, modelled as a natural number.
\<close>

type_synonym byte = "8 word"

type_synonym rune = nat

definition bytes_of_string :: "string \<Rightarrow> byte list" where
  \<comment> \<open>the conversion \<open>[]byte(s)\<close>\<close>
  "bytes_of_string s = map of_char s"

definition string_of_bytes :: "byte list \<Rightarrow> string" where
  \<comment> \<open>the conversion \<open>string(b)\<close>\<close>
  "string_of_bytes b = map (\<lambda>w. char_of (unat w)) b"

subsection \<open>Package \<open>strings\<close>\<close>

definition HasPrefix :: "string \<Rightarrow> string \<Rightarrow> bool" where
  "HasPrefix s p = (length p \<le> length s \<and> take (length p) s = p)"

definition TrimPrefix :: "string \<Rightarrow> string \<Rightarrow> string" where
  "TrimPrefix s p = (if HasPrefix s p then drop (length p) s else s)"

definition Contains_slash :: "string \<Rightarrow> bool" where
  \<comment> \<open>\<open>strings.Contains(s, "/")\<close>\<close>
  "Contains_slash s = (CHR ''/'' \<in> set s)"

definition SplitN_slash_2 :: "string \<Rightarrow> string list" where
  \<comment> \<open>\<open>strings.SplitN(s, "/", 2)\<close>: cut at the first separator, if there is one\<close>
  "SplitN_slash_2 s =
     (if CHR ''/'' \<in> set s
      then [takeWhile (\<lambda>c. c \<noteq> CHR ''/'') s, tl (dropWhile (\<lambda>c. c \<noteq> CHR ''/'') s)]
      else [s])"

subsection \<open>Package \<open>unicode/utf8\<close>\<close>

definition RuneError :: rune where
  "RuneError = 0xFFFD"

definition RuneSelf :: nat where
  "RuneSelf = 0x80"

definition cont_byte :: "nat \<Rightarrow> bool" where
  \<comment> \<open>a continuation byte, between \<open>locb\<close> and \<open>hicb\<close>\<close>
  "cont_byte b = (0x80 \<le> b \<and> b \<le> 0xBF)"

definition DecodeRuneInString :: "string \<Rightarrow> rune \<times> nat" where
  "DecodeRuneInString s =
     (if length s < 1 then (RuneError, 0)
      else let s0 = (of_char (s ! 0) :: nat) in
        if s0 < RuneSelf then (s0, 1)
        else if s0 < 0xC2 \<or> 0xF4 < s0 then (RuneError, 1)
        else let sz = (if s0 < 0xE0 then 2 else if s0 < 0xF0 then 3 else 4 :: nat);
                 lo = (if s0 = 0xE0 then 0xA0 else if s0 = 0xF0 then 0x90 else 0x80 :: nat);
                 hi = (if s0 = 0xED then 0x9F else if s0 = 0xF4 then 0x8F else 0xBF :: nat)
          in if length s < sz then (RuneError, 1)
             else let s1 = (of_char (s ! 1) :: nat) in
               if s1 < lo \<or> hi < s1 then (RuneError, 1)
               else if sz \<le> 2 then (push_bit 6 (s0 AND 0x1F) OR (s1 AND 0x3F), 2)
               else let s2 = (of_char (s ! 2) :: nat) in
                 if \<not> cont_byte s2 then (RuneError, 1)
                 else if sz \<le> 3
                   then (push_bit 12 (s0 AND 0x0F) OR push_bit 6 (s1 AND 0x3F) OR (s2 AND 0x3F), 3)
                 else let s3 = (of_char (s ! 3) :: nat) in
                   if \<not> cont_byte s3 then (RuneError, 1)
                   else (push_bit 18 (s0 AND 0x07) OR push_bit 12 (s1 AND 0x3F)
                           OR push_bit 6 (s2 AND 0x3F) OR (s3 AND 0x3F), 4))"

definition RuneStart :: "char \<Rightarrow> bool" where
  "RuneStart b = ((of_char b :: nat) AND 0xC0 \<noteq> 0x80)"

definition DecodeLastRuneInString :: "string \<Rightarrow> rune \<times> nat" where
  "DecodeLastRuneInString s =
     (let end = length s in
      if end = 0 then (RuneError, 0)
      else let r = (of_char (s ! (end - 1)) :: nat) in
        if r < RuneSelf then (r, 1)
        else let lim = end - 4;
                 start = (case filter (\<lambda>i. RuneStart (s ! i)) (rev [lim ..< end - 1]) of
                            i # _ \<Rightarrow> i
                          | [] \<Rightarrow> lim - 1);
                 (r, size) = DecodeRuneInString (drop start s)
          in if start + size \<noteq> end then (RuneError, 1) else (r, size))"

definition EncodeRune :: "rune \<Rightarrow> string" where
  \<comment> \<open>the bytes \<open>string(r)\<close> appends for one rune; a surrogate or a value above
      \<open>MaxRune\<close> is written as \<open>RuneError\<close>\<close>
  "EncodeRune r =
     (if r \<le> 0x7F then [char_of r]
      else if r \<le> 0x7FF then [char_of (0xC0 OR drop_bit 6 r), char_of (0x80 OR (r AND 0x3F))]
      else if 0x10FFFF < r \<or> (0xD800 \<le> r \<and> r \<le> 0xDFFF) then [CHR 0xEF, CHR 0xBF, CHR 0xBD]
      else if r \<le> 0xFFFF
        then [char_of (0xE0 OR drop_bit 12 r), char_of (0x80 OR (drop_bit 6 r AND 0x3F)),
              char_of (0x80 OR (r AND 0x3F))]
      else [char_of (0xF0 OR drop_bit 18 r), char_of (0x80 OR (drop_bit 12 r AND 0x3F)),
            char_of (0x80 OR (drop_bit 6 r AND 0x3F)), char_of (0x80 OR (r AND 0x3F))])"

lemma DecodeRuneInString_size:
  "s \<noteq> [] \<Longrightarrow> 1 \<le> snd (DecodeRuneInString s) \<and> snd (DecodeRuneInString s) \<le> length s"
  by (cases s) (auto simp: DecodeRuneInString_def Let_def Suc_le_eq)

function runes_of_string :: "string \<Rightarrow> rune list" where
  \<comment> \<open>the conversion \<open>[]rune(s)\<close>: an invalid byte is one \<open>RuneError\<close>\<close>
  "runes_of_string s =
     (if s = [] then []
      else let (r, size) = DecodeRuneInString s in r # runes_of_string (drop size s))"
  by pat_completeness auto
termination
proof (relation "measure length")
  show "wf (measure length)" by simp
next
  fix s :: string and x :: "rune \<times> nat" and r :: rune and size :: nat
  assume "s \<noteq> []" "x = DecodeRuneInString s" "(r, size) = x"
  then have "1 \<le> size" using DecodeRuneInString_size [of s] by (metis snd_conv)
  with \<open>s \<noteq> []\<close> show "(drop size s, s) \<in> measure length" by (cases s) auto
qed

definition string_of_runes :: "rune list \<Rightarrow> string" where
  \<comment> \<open>the conversion \<open>string(r)\<close> of a \<open>[]rune\<close>\<close>
  "string_of_runes rs = concat (map EncodeRune rs)"

declare runes_of_string.simps [simp del]

subsection \<open>Trimming (\<open>strings.TrimSpace\<close>)\<close>

definition asciiSpace :: "char \<Rightarrow> bool" where
  "asciiSpace c = (c \<in> {CHR 0x09, CHR 0x0A, CHR 0x0B, CHR 0x0C, CHR 0x0D, CHR '' ''})"

definition IsSpace :: "rune \<Rightarrow> bool" where
  \<comment> \<open>\<open>unicode.IsSpace\<close>: the Latin-1 spaces and the code points of \<open>White_Space\<close>\<close>
  "IsSpace r =
     (if r \<le> 0xFF then r \<in> {0x09, 0x0A, 0x0B, 0x0C, 0x0D, 0x20, 0x85, 0xA0}
      else r = 0x1680 \<or> (0x2000 \<le> r \<and> r \<le> 0x200A) \<or> r = 0x2028 \<or> r = 0x2029
           \<or> r = 0x202F \<or> r = 0x205F \<or> r = 0x3000)"

function TrimLeftFunc :: "string \<Rightarrow> (rune \<Rightarrow> bool) \<Rightarrow> string" where
  "TrimLeftFunc s f =
     (if s = [] then []
      else let (r, size) = DecodeRuneInString s
           in if f r then TrimLeftFunc (drop size s) f else s)"
  by pat_completeness auto
termination
proof (relation "measure (\<lambda>(s, f). length s)")
  show "wf (measure (\<lambda>(s, f). length s))" by simp
next
  fix s :: string and f :: "rune \<Rightarrow> bool" and x :: "rune \<times> nat" and r :: rune and size :: nat
  assume "s \<noteq> []" "x = DecodeRuneInString s" "(r, size) = x"
  then have "1 \<le> size" using DecodeRuneInString_size [of s] by (metis snd_conv)
  with \<open>s \<noteq> []\<close> show "((drop size s, f), (s, f)) \<in> measure (\<lambda>(s, f). length s)"
    by (cases s) auto
qed

declare TrimLeftFunc.simps [simp del]

lemma DecodeLastRuneInString_size:
  assumes "s \<noteq> []"
  shows "1 \<le> snd (DecodeLastRuneInString s)"
proof -
  define lim where "lim = length s - 4"
  define start where
    "start = (case filter (\<lambda>i. RuneStart (s ! i)) (rev [lim ..< length s - 1]) of
                i # _ \<Rightarrow> i | [] \<Rightarrow> lim - 1)"
  have "start < length s"
  proof (cases "filter (\<lambda>i. RuneStart (s ! i)) (rev [lim ..< length s - 1])")
    case Nil
    with assms show ?thesis by (simp add: start_def lim_def)
  next
    case (Cons i rest)
    then have "i \<in> set (filter (\<lambda>i. RuneStart (s ! i)) (rev [lim ..< length s - 1]))"
      by simp
    then have "i < length s - 1" by simp
    with Cons show ?thesis by (simp add: start_def)
  qed
  then have "drop start s \<noteq> []" by simp
  then have "1 \<le> snd (DecodeRuneInString (drop start s))"
    using DecodeRuneInString_size by blast
  moreover obtain r size where "DecodeRuneInString (drop start s) = (r, size)"
    by fastforce
  ultimately show ?thesis
    using assms unfolding DecodeLastRuneInString_def Let_def start_def lim_def
    by simp
qed

function lastIndexFunc :: "string \<Rightarrow> (rune \<Rightarrow> bool) \<Rightarrow> nat option" where
  \<comment> \<open>\<open>lastIndexFunc(s, f, false)\<close>; \<open>None\<close> is the result -1\<close>
  "lastIndexFunc s f =
     (if s = [] then None
      else let (r, size) = DecodeLastRuneInString s; i = length s - size
           in if \<not> f r then Some i else lastIndexFunc (take i s) f)"
  by pat_completeness auto
termination
proof (relation "measure (\<lambda>(s, f). length s)")
  show "wf (measure (\<lambda>(s, f). length s))" by simp
next
  fix s :: string and f :: "rune \<Rightarrow> bool" and x :: "rune \<times> nat" and r :: rune
    and size :: nat and i :: nat
  assume "s \<noteq> []" "x = DecodeLastRuneInString s" "(r, size) = x" "i = length s - size"
  then have "1 \<le> size" using DecodeLastRuneInString_size [of s] by (metis snd_conv)
  with \<open>s \<noteq> []\<close> \<open>i = length s - size\<close>
  show "((take i s, f), (s, f)) \<in> measure (\<lambda>(s, f). length s)"
    by (cases s) auto
qed

declare lastIndexFunc.simps [simp del]

definition TrimRightFunc :: "string \<Rightarrow> (rune \<Rightarrow> bool) \<Rightarrow> string" where
  "TrimRightFunc s f =
     (case lastIndexFunc s f of
        Some i \<Rightarrow>
          if RuneSelf \<le> of_char (s ! i)
          then take (i + snd (DecodeRuneInString (drop i s))) s
          else take (i + 1) s
      | None \<Rightarrow> take 0 s)"

definition TrimFunc :: "string \<Rightarrow> (rune \<Rightarrow> bool) \<Rightarrow> string" where
  "TrimFunc s f = TrimRightFunc (TrimLeftFunc s f) f"

definition TrimSpace :: "string \<Rightarrow> string" where
  \<comment> \<open>the two ASCII loops of \<open>strings.TrimSpace\<close>, each falling back to the Unicode
      trimming at the first byte that is not ASCII\<close>
  "TrimSpace s =
     (case dropWhile asciiSpace s of
        [] \<Rightarrow> []
      | c # cs \<Rightarrow>
          if RuneSelf \<le> of_char c then TrimFunc (c # cs) IsSpace
          else (case dropWhile asciiSpace (rev (c # cs)) of
                  [] \<Rightarrow> []
                | d # ds \<Rightarrow>
                    if RuneSelf \<le> of_char d then TrimRightFunc (rev (d # ds)) IsSpace
                    else rev (d # ds)))"

subsection \<open>Package \<open>encoding/hex\<close> and the digest type\<close>

definition hextable :: string where
  "hextable = ''0123456789abcdef''"

fun hex_EncodeToString :: "byte list \<Rightarrow> string" where
  "hex_EncodeToString [] = []"
| "hex_EncodeToString (v # src) =
     hextable ! unat (drop_bit 4 v) # hextable ! unat (v AND 0x0f) # hex_EncodeToString src"

typedef byte32 = "{xs :: byte list. length xs = 32}"
  morphisms slice_of_byte32 byte32_of_slice
  by (rule exI [of _ "replicate 32 0"]) simp

text \<open>\<^typ>\<open>byte32\<close> is the array type \<open>[32]byte\<close> of a SHA-256 digest;
  \<^const>\<open>slice_of_byte32\<close> is the slice expression \<open>sum[:]\<close>.\<close>

section \<open>Errors\<close>

text \<open>
  Every \<open>fmt.Errorf\<close> of the package is one constructor, carrying the arguments of its
  format string. An error of a library (\<open>%w\<close>) is an opaque \<^typ>\<open>string\<close>.
\<close>

type_synonym cause = string

datatype error =
    ErrInvalidFullMethodName string
      \<comment> \<open>"invalid full method name: %q, expected /package.Service/Method"\<close>
  | ErrReadDescriptorFile string cause  \<comment> \<open>"read descriptor file %s: %w"\<close>
  | ErrUnmarshal cause  \<comment> \<open>"unmarshal FileDescriptorSet: %w"\<close>
  | ErrCreateFileDescriptors cause  \<comment> \<open>"create file descriptors: %w"\<close>
  | ErrMethodNotInDescriptorSet string  \<comment> \<open>"method %q not found in descriptor set"\<close>
  | ErrMissingServiceOrMethod  \<comment> \<open>"missing service or method"\<close>
  | ErrAmbiguousServiceName string "string list"
      \<comment> \<open>"ambiguous service name %q, candidates: %v"\<close>
  | ErrServiceNotFound string  \<comment> \<open>"service %q not found in inline descriptor"\<close>
  | ErrMethodNotFound string string  \<comment> \<open>"method %q not found in service %q"\<close>
  | ErrEmptyDescriptorID  \<comment> \<open>"empty descriptor id"\<close>
  | ErrDescriptorNotFound string  \<comment> \<open>"descriptor not found for id %q"\<close>
  | ErrMissingMethodInline  \<comment> \<open>"missing method for inline descriptor invocation"\<close>
  | ErrResolveInline error  \<comment> \<open>"resolve method from inline descriptor: %w"\<close>
  | ErrMissingFullMethodName  \<comment> \<open>"missing full method name"\<close>
  | ErrResolveMethod error  \<comment> \<open>"resolve method: %w"\<close>
  | ErrStreamingNotSupported string  \<comment> \<open>"streaming method not supported: %s"\<close>
  | ErrJSONToMessage cause  \<comment> \<open>"json to message: %w"\<close>
  | ErrDial string cause  \<comment> \<open>"dial %s: %w"\<close>
  | ErrInvokeRpc cause  \<comment> \<open>"invoke rpc: %w"\<close>
  | ErrMarshal cause  \<comment> \<open>the error of \<open>jsonpb\<close>'s \<open>Marshal\<close>, returned as it is\<close>

section \<open>Descriptors (package \<open>desc\<close>)\<close>

record MethodDescriptor =
  md_name :: string
  md_service :: string  \<comment> \<open>fully-qualified name of \<open>GetService()\<close>\<close>
  md_input_type :: string
  md_output_type :: string
  md_client_streaming :: bool
  md_server_streaming :: bool

record ServiceDescriptor =
  sd_package :: string  \<comment> \<open>the package of the enclosing file\<close>
  sd_name :: string
  sd_methods :: "MethodDescriptor list"

record FileDescriptor =
  fd_services :: "ServiceDescriptor list"

definition GetName :: "ServiceDescriptor \<Rightarrow> string" where
  "GetName svc = sd_name svc"

definition GetFullyQualifiedName :: "ServiceDescriptor \<Rightarrow> string" where
  \<comment> \<open>the name qualified by the package, when there is one\<close>
  "GetFullyQualifiedName svc =
     (if sd_package svc = [] then sd_name svc else sd_package svc @ ''.'' @ sd_name svc)"

definition GetServices :: "FileDescriptor \<Rightarrow> ServiceDescriptor list" where
  "GetServices fd = fd_services fd"

definition GetMethods :: "ServiceDescriptor \<Rightarrow> MethodDescriptor list" where
  "GetMethods svc = sd_methods svc"

definition FindMethodByName :: "ServiceDescriptor \<Rightarrow> string \<Rightarrow> MethodDescriptor option" where
  \<comment> \<open>\<open>None\<close> is the nil descriptor\<close>
  "FindMethodByName svc name = find (\<lambda>m. md_name m = name) (sd_methods svc)"

definition IsClientStreaming :: "MethodDescriptor \<Rightarrow> bool" where
  "IsClientStreaming md = md_client_streaming md"

definition IsServerStreaming :: "MethodDescriptor \<Rightarrow> bool" where
  "IsServerStreaming md = md_server_streaming md"

text \<open>
  What the program takes from outside: the digest, the protobuf decoder and linker, and
  the file system. \<^typ>\<open>'fds\<close> is the message type \<open>descriptorpb.FileDescriptorSet\<close>.
\<close>

record 'fds world =
  Sum256 :: "byte list \<Rightarrow> byte32"
  proto_Unmarshal :: "byte list \<Rightarrow> cause + 'fds"
  CreateFileDescriptorsFromSet :: "'fds \<Rightarrow> cause + FileDescriptor list"
  filepath_Join :: "string \<Rightarrow> string \<Rightarrow> string"
  os_ReadFile :: "string \<Rightarrow> cause + byte list"

section \<open>The static method resolver\<close>

definition ParseFullMethodName :: "string \<Rightarrow> error + string \<times> string" where
  "ParseFullMethodName fullMethodName =
     (let fullMethodName = TrimPrefix fullMethodName ''/'';
          parts = SplitN_slash_2 fullMethodName
      in if length parts \<noteq> 2 then Inl (ErrInvalidFullMethodName fullMethodName)
         else Inr (parts ! 0, parts ! 1))"

record MethodResolver =
  descriptorDir :: string
  cache :: "string \<rightharpoonup> MethodDescriptor"

definition NewMethodResolver :: "string \<Rightarrow> MethodResolver" where
  "NewMethodResolver dir = \<lparr>descriptorDir = dir, cache = Map.empty\<rparr>"

definition methods_in_order :: "FileDescriptor list \<Rightarrow> (ServiceDescriptor \<times> MethodDescriptor) list" where
  \<comment> \<open>the pairs the three nested loops of \<open>Resolve\<close> visit, in their order\<close>
  "methods_in_order files =
     concat (map (\<lambda>fd. concat (map (\<lambda>svc. map (Pair svc) (GetMethods svc)) (GetServices fd)))
       files)"

definition MethodResolver_Resolve ::
  "'fds world \<Rightarrow> MethodResolver \<Rightarrow> string \<Rightarrow> (error + MethodDescriptor) \<times> MethodResolver" where
  "MethodResolver_Resolve w r fullMethodName =
     (case cache r fullMethodName of
        Some md \<Rightarrow> (Inr md, r)
      | None \<Rightarrow>
         (case ParseFullMethodName fullMethodName of
            Inl err \<Rightarrow> (Inl err, r)
          | Inr (serviceName, _) \<Rightarrow>
             (let pbPath = filepath_Join w (descriptorDir r) (serviceName @ ''.pb'') in
              case os_ReadFile w pbPath of
                Inl err \<Rightarrow> (Inl (ErrReadDescriptorFile pbPath err), r)
              | Inr data \<Rightarrow>
                 (case proto_Unmarshal w data of
                    Inl err \<Rightarrow> (Inl (ErrUnmarshal err), r)
                  | Inr fds \<Rightarrow>
                     (case CreateFileDescriptorsFromSet w fds of
                        Inl err \<Rightarrow> (Inl (ErrCreateFileDescriptors err), r)
                      | Inr files \<Rightarrow>
                         (case find (\<lambda>(svc, m). ''/'' @ GetFullyQualifiedName svc @ ''/'' @ md_name m
                                            = fullMethodName) (methods_in_order files) of
                            Some (svc, m) \<Rightarrow>
                              (Inr m, r\<lparr>cache := (cache r)(fullMethodName \<mapsto> m)\<rparr>)
                          | None \<Rightarrow> (Inl (ErrMethodNotInDescriptorSet fullMethodName), r)))))))"



section \<open>The inline descriptor pool\<close>

record ResolvedMethod =
  Method :: MethodDescriptor
  ServiceFQN :: string

record InlineDescriptorPool =
  servicesByFQN :: "string \<rightharpoonup> ServiceDescriptor"
  servicesByName :: "string \<rightharpoonup> ServiceDescriptor list"

definition slice_at :: "('k \<rightharpoonup> 'v list) \<Rightarrow> 'k \<Rightarrow> 'v list" where
  \<comment> \<open>reading a map of slices: a missing key reads as the nil slice\<close>
  "slice_at m k = (case m k of None \<Rightarrow> [] | Some vs \<Rightarrow> vs)"

definition pool_add_service :: "InlineDescriptorPool \<Rightarrow> ServiceDescriptor \<Rightarrow> InlineDescriptorPool" where
  \<comment> \<open>the body of the inner loop of \<open>newInlineDescriptorPool\<close>\<close>
  "pool_add_service pool svc =
     (let fqn = GetFullyQualifiedName svc;
          byFQN = (servicesByFQN pool)(fqn \<mapsto> svc);
          byFQN = byFQN(''.'' @ fqn \<mapsto> svc);
          byName = (servicesByName pool)
                     (GetName svc \<mapsto> slice_at (servicesByName pool) (GetName svc) @ [svc])
      in \<lparr>servicesByFQN = byFQN, servicesByName = byName\<rparr>)"

definition newInlineDescriptorPool :: "'fds world \<Rightarrow> byte list \<Rightarrow> error + InlineDescriptorPool" where
  "newInlineDescriptorPool w descriptorSetBytes =
     (case proto_Unmarshal w descriptorSetBytes of
        Inl err \<Rightarrow> Inl (ErrUnmarshal err)
      | Inr fds \<Rightarrow>
         (case CreateFileDescriptorsFromSet w fds of
            Inl err \<Rightarrow> Inl (ErrCreateFileDescriptors err)
          | Inr files \<Rightarrow>
              Inr (foldl (\<lambda>pool fd. foldl pool_add_service pool (GetServices fd))
                     \<lparr>servicesByFQN = Map.empty, servicesByName = Map.empty\<rparr> files)))"

definition normalize_names :: "string \<Rightarrow> string \<Rightarrow> string \<times> string" where
  \<comment> \<open>lines 55 to 69 of \<open>InlineDescriptorPool.Resolve\<close>: the service and the method it
      goes on with\<close>
  "normalize_names service method =
     (let service = TrimSpace service;
          method = TrimSpace method;
          (service, method) =
            (if Contains_slash method
             then (case ParseFullMethodName method of
                     Inr (svc, m) \<Rightarrow> if service = [] then (svc, m) else (service, method)
                   | Inl err \<Rightarrow> (service, method))
             else (service, method));
          service = TrimPrefix service ''/'';
          service = TrimPrefix service ''.'';
          method = TrimPrefix method ''/''
      in (service, method))"

definition select_service :: "InlineDescriptorPool \<Rightarrow> string \<Rightarrow> error + ServiceDescriptor" where
  \<comment> \<open>lines 75 to 90: the chain of lookups\<close>
  "select_service p service =
     (case servicesByFQN p service of
        Some v \<Rightarrow> Inr v
      | None \<Rightarrow>
         (case servicesByFQN p (''.'' @ service) of
            Some v \<Rightarrow> Inr v
          | None \<Rightarrow>
             (let list = slice_at (servicesByName p) service in
              if length list = 1 then Inr (list ! 0)
              else if length list > 1
                then Inl (ErrAmbiguousServiceName service (map GetFullyQualifiedName list))
              else Inl (ErrServiceNotFound service))))"

definition InlineDescriptorPool_Resolve ::
  "InlineDescriptorPool \<Rightarrow> string \<Rightarrow> string \<Rightarrow> error + ResolvedMethod" where
  "InlineDescriptorPool_Resolve p service method =
     (let (service, method) = normalize_names service method in
      if service = [] \<or> method = [] then Inl ErrMissingServiceOrMethod
      else (case select_service p service of
              Inl err \<Rightarrow> Inl err
            | Inr svc \<Rightarrow>
               (case FindMethodByName svc method of
                  None \<Rightarrow> Inl (ErrMethodNotFound method (GetFullyQualifiedName svc))
                | Some md \<Rightarrow>
                    Inr \<lparr>Method = md, ServiceFQN = GetFullyQualifiedName svc\<rparr>)))"

section \<open>The inline method resolver\<close>

record InlineMethodResolver =
  pools :: "string \<rightharpoonup> InlineDescriptorPool"

definition NewInlineMethodResolver :: InlineMethodResolver where
  "NewInlineMethodResolver = \<lparr>pools = Map.empty\<rparr>"

definition cache_key :: "'fds world \<Rightarrow> byte list \<Rightarrow> string \<Rightarrow> string" where
  \<comment> \<open>lines 116 to 120 of \<open>InlineMethodResolver.Resolve\<close>: the variable \<open>key\<close>\<close>
  "cache_key w descriptorSetBytes descriptorID =
     (if descriptorID = [] \<and> length descriptorSetBytes > 0
      then hex_EncodeToString (slice_of_byte32 (Sum256 w descriptorSetBytes))
      else descriptorID)"

definition InlineMethodResolver_Resolve ::
  "'fds world \<Rightarrow> InlineMethodResolver \<Rightarrow> byte list \<Rightarrow> string \<Rightarrow> string \<Rightarrow> string
     \<Rightarrow> (error + ResolvedMethod \<times> string) \<times> InlineMethodResolver" where
  "InlineMethodResolver_Resolve w r descriptorSetBytes descriptorID service method =
     (let key = cache_key w descriptorSetBytes descriptorID in
      if key = [] then (Inl ErrEmptyDescriptorID, r)
      else
        let ok = (pools r key \<noteq> None) in
        if \<not> ok \<and> length descriptorSetBytes = 0 then (Inl (ErrDescriptorNotFound key), r)
        else
          (case (if \<not> ok
                 then (case newInlineDescriptorPool w descriptorSetBytes of
                         Inl err \<Rightarrow> Inl err
                       | Inr pool \<Rightarrow> Inr (pool, r\<lparr>pools := (pools r)(key \<mapsto> pool)\<rparr>))
                 else Inr (the (pools r key), r)) of
             Inl err \<Rightarrow> (Inl err, r)
           | Inr (pool, r') \<Rightarrow>
              (case InlineDescriptorPool_Resolve pool service method of
                 Inl err \<Rightarrow> (Inl err, r')
               | Inr rm \<Rightarrow> (Inr (rm, key), r'))))"

record inline_call =
  call_bytes :: "byte list"
  call_id :: string
  call_service :: string
  call_method :: string

fun InlineMethodResolver_calls ::
  "'fds world \<Rightarrow> InlineMethodResolver \<Rightarrow> inline_call list \<Rightarrow> InlineMethodResolver" where
  \<comment> \<open>a resolver after a sequence of \<open>Resolve\<close> calls\<close>
  "InlineMethodResolver_calls w r [] = r"
| "InlineMethodResolver_calls w r (c # calls) =
     InlineMethodResolver_calls w
       (snd (InlineMethodResolver_Resolve w r (call_bytes c) (call_id c) (call_service c)
               (call_method c)))
       calls"

section \<open>The payload codec and the invoker\<close>

text \<open>
  The JSON codec and the gRPC client are libraries: \<^typ>\<open>'msg\<close> is a dynamic message,
  \<^typ>\<open>'conn\<close> a client connection. A context is the deadline it carries, if any.
\<close>

record Marshaler =
  EmitDefaults :: bool

record ('msg, 'conn) rpc =
  jsonpb_Unmarshal :: "string \<Rightarrow> byte list \<Rightarrow> cause + 'msg"
  jsonpb_Marshal :: "Marshaler \<Rightarrow> 'msg \<Rightarrow> cause + byte list"
  grpc_DialContext :: "int option \<Rightarrow> string \<Rightarrow> cause + 'conn"
  InvokeRpc :: "int option \<Rightarrow> 'conn \<Rightarrow> MethodDescriptor \<Rightarrow> 'msg \<Rightarrow> cause + 'msg"

definition jsonpbMarshaler :: Marshaler where
  "jsonpbMarshaler = \<lparr>EmitDefaults = True\<rparr>"

definition GetInputType :: "MethodDescriptor \<Rightarrow> string" where
  "GetInputType method = md_input_type method"

definition JSONToMessage :: "('msg, 'conn) rpc \<Rightarrow> MethodDescriptor \<Rightarrow> byte list \<Rightarrow> cause + 'msg" where
  "JSONToMessage rpc method jsonBody =
     (let msgDesc = GetInputType method in
      case jsonpb_Unmarshal rpc msgDesc jsonBody of
        Inl err \<Rightarrow> Inl err
      | Inr msg \<Rightarrow> Inr msg)"

definition MessageToJSON :: "('msg, 'conn) rpc \<Rightarrow> 'msg \<Rightarrow> cause + byte list" where
  "MessageToJSON rpc msg =
     (case jsonpb_Marshal rpc jsonpbMarshaler msg of
        Inl err \<Rightarrow> Inl err
      | Inr buf \<Rightarrow> Inr buf)"

record Invoker =
  resolver :: MethodResolver
  inlineResolver :: InlineMethodResolver
  timeout :: int

definition NewInvoker :: "string \<Rightarrow> int \<Rightarrow> Invoker" where
  "NewInvoker dir t =
     \<lparr>resolver = NewMethodResolver dir, inlineResolver = NewInlineMethodResolver, timeout = t\<rparr>"

record InvokeRequest =
  Target :: string
  FullMethodName :: string
  ServiceName :: string
  MethodName :: string
  InlineDescriptorSet :: "byte list"
  DescriptorID :: string
  Body :: "byte list"

datatype effect =
    EffJSONToMessage
  | EffDial string
  | EffInvokeRpc
  | EffMessageToJSON
  | EffClose

definition resolve_request ::
  "'fds world \<Rightarrow> Invoker \<Rightarrow> InvokeRequest \<Rightarrow> (error + ResolvedMethod \<times> string) \<times> Invoker" where
  \<comment> \<open>lines 52 to 76 of \<open>Invoke\<close>: the variables \<open>method\<close> and \<open>methodName\<close>\<close>
  "resolve_request w ivk req =
     (if length (InlineDescriptorSet req) > 0 \<or> DescriptorID req \<noteq> [] then
        if MethodName req = [] then (Inl ErrMissingMethodInline, ivk)
        else
          (case InlineMethodResolver_Resolve w (inlineResolver ivk) (InlineDescriptorSet req)
                  (DescriptorID req) (ServiceName req) (MethodName req) of
             (Inl err, ir) \<Rightarrow> (Inl (ErrResolveInline err), ivk\<lparr>inlineResolver := ir\<rparr>)
           | (Inr (method, _), ir) \<Rightarrow>
               (Inr (method, ''/'' @ ServiceFQN method @ ''/'' @ md_name (Method method)),
                ivk\<lparr>inlineResolver := ir\<rparr>))
      else
        if FullMethodName req = [] then (Inl ErrMissingFullMethodName, ivk)
        else
          (case MethodResolver_Resolve w (resolver ivk) (FullMethodName req) of
             (Inl err, mr) \<Rightarrow> (Inl (ErrResolveMethod err), ivk\<lparr>resolver := mr\<rparr>)
           | (Inr md, mr) \<Rightarrow>
               (Inr (\<lparr>Method = md, ServiceFQN = md_service md\<rparr>, FullMethodName req),
                ivk\<lparr>resolver := mr\<rparr>)))"

definition Invoke ::
  "'fds world \<Rightarrow> ('msg, 'conn) rpc \<Rightarrow> Invoker \<Rightarrow> InvokeRequest
     \<Rightarrow> (error + byte list) \<times> Invoker \<times> effect list" where
  \<comment> \<open>the result, the invoker afterwards, and the calls made on the codec and the network\<close>
  "Invoke w rpc ivk req =
     (let ctx = (if timeout ivk > 0 then Some (timeout ivk) else None) in
      case resolve_request w ivk req of
        (Inl err, ivk') \<Rightarrow> (Inl err, ivk', [])
      | (Inr (method, methodName), ivk') \<Rightarrow>
          if IsClientStreaming (Method method) \<or> IsServerStreaming (Method method)
          then (Inl (ErrStreamingNotSupported methodName), ivk', [])
          else
            (case JSONToMessage rpc (Method method) (Body req) of
               Inl err \<Rightarrow> (Inl (ErrJSONToMessage err), ivk', [EffJSONToMessage])
             | Inr reqMsg \<Rightarrow>
                (case grpc_DialContext rpc ctx (Target req) of
                   Inl err \<Rightarrow>
                     (Inl (ErrDial (Target req) err), ivk',
                      [EffJSONToMessage, EffDial (Target req)])
                 | Inr conn \<Rightarrow>
                    (case InvokeRpc rpc ctx conn (Method method) reqMsg of
                       Inl err \<Rightarrow>
                         (Inl (ErrInvokeRpc err), ivk',
                          [EffJSONToMessage, EffDial (Target req), EffInvokeRpc, EffClose])
                     | Inr respMsg \<Rightarrow>
                         (case MessageToJSON rpc respMsg of
                            Inl err \<Rightarrow> Inl (ErrMarshal err)
                          | Inr buf \<Rightarrow> Inr buf,
                          ivk',
                          [EffJSONToMessage, EffDial (Target req), EffInvokeRpc,
                           EffMessageToJSON, EffClose])))))"

section \<open>The body transport encoding (package \<open>sdk\<close>)\<close>

subsection \<open>Package \<open>encoding/base64\<close>: \<open>StdEncoding\<close>\<close>

definition encodeStd :: string where
  "encodeStd = ''ABCDEFGHIJKLMNOPQRSTUVWXYZabcdefghijklmnopqrstuvwxyz0123456789+/''"

definition decodeMap :: "char \<Rightarrow> nat" where
  \<comment> \<open>every entry is 0xFF, then the alphabet is written over it in order\<close>
  "decodeMap = foldl (\<lambda>m (i, c). m(c := i)) (\<lambda>c. 0xFF) (enumerate 0 encodeStd)"

definition encode :: "nat \<Rightarrow> char" where
  "encode i = encodeStd ! i"

fun base64_Encode :: "byte list \<Rightarrow> string" where
  "base64_Encode (a # b # c # src) =
     (let val = push_bit 16 (unat a) OR push_bit 8 (unat b) OR unat c in
      encode (drop_bit 18 val AND 0x3F) # encode (drop_bit 12 val AND 0x3F)
        # encode (drop_bit 6 val AND 0x3F) # encode (val AND 0x3F) # base64_Encode src)"
| "base64_Encode [a, b] =
     (let val = push_bit 16 (unat a) OR push_bit 8 (unat b) in
      [encode (drop_bit 18 val AND 0x3F), encode (drop_bit 12 val AND 0x3F),
       encode (drop_bit 6 val AND 0x3F), CHR ''=''])"
| "base64_Encode [a] =
     (let val = push_bit 16 (unat a) in
      [encode (drop_bit 18 val AND 0x3F), encode (drop_bit 12 val AND 0x3F),
       CHR ''='', CHR ''=''])"
| "base64_Encode [] = []"

definition EncodeToString :: "byte list \<Rightarrow> string" where
  "EncodeToString src = base64_Encode src"

definition newline :: "char \<Rightarrow> bool" where
  "newline c = (c = CHR 0x0A \<or> c = CHR 0x0D)"

text \<open>
  The loop of \<open>decodeQuantum\<close> over \<open>j\<close>, reading the source from position \<open>si\<close>. It
  gives the position reached, the source left, the sextets read when the loop is left
  (\<open>dlen\<close> is their number) or nothing when the function returns from inside the loop,
  and the offset of a \<open>CorruptInputError\<close>.
\<close>

fun quantum_loop ::
  "nat \<Rightarrow> nat list \<Rightarrow> nat \<Rightarrow> string \<Rightarrow> nat \<times> string \<times> nat list option \<times> nat option" where
  "quantum_loop j dbuf si src =
     (if 4 \<le> j then (si, src, Some dbuf, None)
      else
        (case src of
           [] \<Rightarrow> if j = 0 then (si, [], None, None) else (si, [], None, Some (si - j))
         | c # rest \<Rightarrow>
            (let si = si + 1; out = decodeMap c in
             if out \<noteq> 0xFF then quantum_loop (j + 1) (dbuf @ [out]) si rest
             else if newline c then quantum_loop j dbuf si rest
             else if c \<noteq> CHR ''='' then (si, rest, None, Some (si - 1))
             else if j = 0 \<or> j = 1 then (si, rest, None, Some (si - 1))
             else
               (case (if j = 2
                      then (let si = si + length (takeWhile newline rest);
                                rest = dropWhile newline rest
                            in case rest of
                                 [] \<Rightarrow> Inl (si, [], Some si)
                               | d # rest' \<Rightarrow>
                                   if d \<noteq> CHR ''='' then Inl (si, d # rest', Some (si - 1))
                                   else Inr (si + 1, rest'))
                      else Inr (si, rest)) of
                  Inl (si, rest, err) \<Rightarrow> (si, rest, None, err)
                | Inr (si, rest) \<Rightarrow>
                    (let si = si + length (takeWhile newline rest);
                         rest = dropWhile newline rest
                     in (si, rest, Some dbuf, if rest \<noteq> [] then Some si else None))))))"

declare quantum_loop.simps [simp del]

definition decodeQuantum :: "nat \<Rightarrow> string \<Rightarrow> nat \<times> string \<times> byte list \<times> nat option" where
  \<comment> \<open>the position reached, the source left, the bytes written and the error\<close>
  "decodeQuantum si src =
     (case quantum_loop 0 [] si src of
        (si, rest, None, err) \<Rightarrow> (si, rest, [], err)
      | (si, rest, Some dbuf, err) \<Rightarrow>
          (let dlen = length dbuf;
               d = (\<lambda>i. if i < dlen then dbuf ! i else 0);
               val = push_bit 18 (d 0) OR push_bit 12 (d 1) OR push_bit 6 (d 2) OR d 3;
               out = [of_nat (drop_bit 16 val), of_nat (drop_bit 8 val), of_nat val]
           in (si, rest, take (dlen - 1) out, err)))"

lemma quantum_loop_rest:
  "length (fst (snd (quantum_loop j dbuf si src))) \<le> length src
   \<and> (j < 4 \<longrightarrow> src \<noteq> [] \<longrightarrow> length (fst (snd (quantum_loop j dbuf si src))) < length src)"
proof (induction j dbuf si src rule: quantum_loop.induct)
  case (1 j dbuf si src)
  show ?case
  proof (cases "4 \<le> j")
    case True
    then show ?thesis by (simp add: quantum_loop.simps)
  next
    case False
    show ?thesis
    proof (cases src)
      case Nil
      with False show ?thesis by (simp add: quantum_loop.simps)
    next
      case (Cons c rest)
      have le: "length (dropWhile newline xs) \<le> length xs" for xs
        by (rule length_dropWhile_le)
      have le2: "dropWhile newline xs = d # ys \<Longrightarrow> length (dropWhile newline ys) \<le> length xs"
        for xs d ys
        using le [of xs] le [of ys] by simp
      show ?thesis
        using False Cons "1.IH"(1) [OF False Cons refl refl] "1.IH"(2) [OF False Cons refl refl]
          le [of rest]
        apply (subst (1 2) quantum_loop.simps)
        apply (auto simp: Let_def less_Suc_eq_le dest: le2
            split: list.splits sum.splits prod.splits if_splits)
        done
    qed
  qed
qed

lemma decodeQuantum_rest:
  "src \<noteq> [] \<Longrightarrow> length (fst (snd (decodeQuantum si src))) < length src"
  using quantum_loop_rest [of 0 "[]" si src]
  by (auto simp: decodeQuantum_def Let_def split: prod.splits option.splits)

function base64_Decode :: "nat \<Rightarrow> string \<Rightarrow> byte list \<times> nat option" where
  \<comment> \<open>the loop of \<open>Decode\<close> from position \<open>si\<close>: the bytes written and the error\<close>
  "base64_Decode si src =
     (if src = [] then ([], None)
      else let (si', rest, out, err) = decodeQuantum si src in
        if err \<noteq> None then (out, err)
        else let (more, err') = base64_Decode si' rest in (out @ more, err'))"
  by pat_completeness auto
termination
proof (relation "measure (\<lambda>(si, src). length src)")
  show "wf (measure (\<lambda>(si, src). length src))" by simp
next
  fix si :: nat and src :: string and x :: "nat \<times> string \<times> byte list \<times> nat option"
    and si' :: nat and y :: "string \<times> byte list \<times> nat option" and rest :: string
    and z :: "byte list \<times> nat option" and out :: "byte list" and err :: "nat option"
  assume "src \<noteq> []" "x = decodeQuantum si src" "(si', y) = x" "(rest, z) = y"
  then have "rest = fst (snd (decodeQuantum si src))"
    by (metis fst_conv snd_conv)
  with \<open>src \<noteq> []\<close> show "((si', rest), (si, src)) \<in> measure (\<lambda>(si, src). length src)"
    using decodeQuantum_rest [of src si] by simp
qed

declare base64_Decode.simps [simp del]

definition DecodeString :: "string \<Rightarrow> byte list \<times> nat option" where
  \<comment> \<open>the bytes decoded and the offset of the \<open>CorruptInputError\<close>, if any\<close>
  "DecodeString s = base64_Decode 0 s"

subsection \<open>File \<open>sdk/encoding.go\<close>\<close>

function reverse_loop :: "nat \<Rightarrow> nat \<Rightarrow> rune list \<Rightarrow> rune list" where
  \<comment> \<open>\<open>for i, j := 0, len(r)-1; i < j; i, j = i+1, j-1\<close>, swapping \<open>r[i]\<close> and \<open>r[j]\<close>;
      with no rune \<open>j\<close> starts at -1, here at 0, and the loop does not run\<close>
  "reverse_loop i j r =
     (if i < j then reverse_loop (i + 1) (j - 1) (r[i := r ! j, j := r ! i]) else r)"
  by pat_completeness auto
termination
  by (relation "measure (\<lambda>(i, j, r). j - i)") auto

declare reverse_loop.simps [simp del]

definition encodeBase64V1 :: "byte list \<Rightarrow> string" where
  "encodeBase64V1 plain =
     (let s = EncodeToString plain;
          r = runes_of_string s;
          r = reverse_loop 0 (length r - 1) r
      in string_of_runes r)"

definition decodeBase64V1 :: "string \<Rightarrow> byte list option \<times> nat option" where
  \<comment> \<open>the slice (\<open>None\<close> is nil) and the error (\<open>None\<close> is nil)\<close>
  "decodeBase64V1 s =
     (if s = [] then (None, None)
      else let r = runes_of_string s;
               r = reverse_loop 0 (length r - 1) r;
               (decoded, err) = DecodeString (string_of_runes r)
           in (Some decoded, err))"

datatype body_error =
    ErrReadBody cause  \<comment> \<open>"read body: %w"\<close>
  | ErrDecodeB64v1 nat  \<comment> \<open>"decode b64v1: %w", with the offset of the corrupt input\<close>

definition decodeRequestBody :: "cause + string \<Rightarrow> body_error + byte list option" where
  \<comment> \<open>the argument is what \<open>io.ReadAll(r.Body)\<close> gives\<close>
  "decodeRequestBody body =
     (case body of
        Inl err \<Rightarrow> Inl (ErrReadBody err)
      | Inr raw \<Rightarrow>
         (case decodeBase64V1 raw of
            (decoded, Some err) \<Rightarrow> Inl (ErrDecodeB64v1 err)
          | (decoded, None) \<Rightarrow> Inr decoded))"

section \<open>Example descriptors\<close>

text \<open>
  A small world for the concrete evaluations: the echo service of the repository's example
  in two versions (the second takes another request type), a decoder that knows the two
  descriptor sets by their bytes \<open>[1]\<close> and \<open>[2]\<close> and a third one, of a streaming service,
  by \<open>[3]\<close>, a descriptor directory with two files, and a codec and network that echo.
\<close>

definition echo_method :: MethodDescriptor where
  "echo_method =
     \<lparr>md_name = ''Echo'', md_service = ''echo.EchoService'',
      md_input_type = ''echo.EchoRequest'', md_output_type = ''echo.EchoResponse'',
      md_client_streaming = False, md_server_streaming = False\<rparr>"

definition echo_service :: ServiceDescriptor where
  "echo_service = \<lparr>sd_package = ''echo'', sd_name = ''EchoService'', sd_methods = [echo_method]\<rparr>"

definition echo_method_v2 :: MethodDescriptor where
  "echo_method_v2 = echo_method\<lparr>md_input_type := ''echo.EchoRequestV2''\<rparr>"

definition echo_service_v2 :: ServiceDescriptor where
  "echo_service_v2 = echo_service\<lparr>sd_methods := [echo_method_v2]\<rparr>"

definition watch_method :: MethodDescriptor where
  "watch_method =
     \<lparr>md_name = ''Watch'', md_service = ''echo.StreamService'',
      md_input_type = ''echo.EchoRequest'', md_output_type = ''echo.EchoResponse'',
      md_client_streaming = False, md_server_streaming = True\<rparr>"

definition stream_service :: ServiceDescriptor where
  "stream_service =
     \<lparr>sd_package = ''echo'', sd_name = ''StreamService'', sd_methods = [watch_method]\<rparr>"

definition example_world :: "nat world" where
  "example_world =
     \<lparr>Sum256 = (\<lambda>bs. byte32_of_slice (replicate 32 (of_nat (length bs)))),
      proto_Unmarshal = (\<lambda>bs. if bs = [1] then Inr 1 else if bs = [2] then Inr 2
                               else if bs = [3] then Inr 3
                               else Inl ''cannot parse invalid wire-format data''),
      CreateFileDescriptorsFromSet =
        (\<lambda>fds. if fds = 1 then Inr [\<lparr>fd_services = [echo_service]\<rparr>]
                else if fds = 2 then Inr [\<lparr>fd_services = [echo_service_v2]\<rparr>]
                else Inr [\<lparr>fd_services = [stream_service]\<rparr>]),
      filepath_Join = (\<lambda>dir name. dir @ ''/'' @ name),
      os_ReadFile = (\<lambda>path. if path = ''core/echo.EchoService.pb'' then Inr [1]
                              else if path = ''core/echo.StreamService.pb'' then Inr [3]
                              else Inl ''no such file or directory'')\<rparr>"

definition example_rpc :: "(string, nat) rpc" where
  "example_rpc =
     \<lparr>jsonpb_Unmarshal = (\<lambda>msgDesc body. Inr (string_of_bytes body)),
      jsonpb_Marshal = (\<lambda>m msg. Inr (bytes_of_string msg)),
      grpc_DialContext = (\<lambda>ctx target. Inr 0),
      InvokeRpc = (\<lambda>ctx conn md msg. Inr msg)\<rparr>"

definition example_resolver :: InlineMethodResolver where
  "example_resolver =
     snd (InlineMethodResolver_Resolve example_world NewInlineMethodResolver [1] ''k''
            ''echo.EchoService'' ''Echo'')"


definition call_other :: inline_call where
  "call_other = \<lparr>call_bytes = [1], call_id = ''other'', call_service = ''EchoService'',
                  call_method = ''Echo''\<rparr>"


definition watch_inline_request :: InvokeRequest where
  "watch_inline_request =
     \<lparr>Target = ''localhost:50051'', FullMethodName = [], ServiceName = ''StreamService'',
      MethodName = ''Watch'', InlineDescriptorSet = [3], DescriptorID = [],
      Body = bytes_of_string ''{}''\<rparr>"

definition watch_static_request :: InvokeRequest where
  "watch_static_request =
     \<lparr>Target = ''localhost:50051'', FullMethodName = ''/echo.StreamService/Watch'',
      ServiceName = [], MethodName = [], InlineDescriptorSet = [], DescriptorID = [],
      Body = bytes_of_string ''{}''\<rparr>"

section \<open>Properties of the inline method resolver\<close>

lemmas names_eval = normalize_names_def TrimSpace_def asciiSpace_def RuneSelf_def Contains_slash_def
  TrimPrefix_def HasPrefix_def ParseFullMethodName_def SplitN_slash_2_def

lemmas pool_eval = newInlineDescriptorPool_def example_world_def GetServices_def pool_add_service_def
  GetFullyQualifiedName_def echo_service_def echo_service_v2_def stream_service_def GetName_def
  slice_at_def Let_def

lemmas resolve_eval = InlineMethodResolver_Resolve_def NewInlineMethodResolver_def cache_key_def
  InlineDescriptorPool_Resolve_def select_service_def FindMethodByName_def echo_method_def
  echo_method_v2_def watch_method_def

lemma hex_EncodeToString_Nil_iff [simp]: "hex_EncodeToString src = [] \<longleftrightarrow> src = []"
  by (cases src) simp_all

lemma slice_of_byte32_neq_Nil [simp]: "slice_of_byte32 d \<noteq> []"
  using slice_of_byte32 [of d] by auto

lemma cache_key_id: "descriptorID \<noteq> [] \<Longrightarrow> cache_key w bs descriptorID = descriptorID"
  by (simp add: cache_key_def)

lemma cache_key_digest:
  "bs \<noteq> [] \<Longrightarrow>
   cache_key w bs [] = hex_EncodeToString (slice_of_byte32 (Sum256 w bs))"
  by (simp add: cache_key_def)

lemma cache_key_empty: "cache_key w [] descriptorID = descriptorID"
  by (simp add: cache_key_def)

lemma cache_key_Nil_iff: "cache_key w bs descriptorID = [] \<longleftrightarrow> descriptorID = [] \<and> bs = []"
  by (auto simp add: cache_key_def)

text \<open>The ways through \<open>Resolve\<close>, by the state of the cache slot.\<close>

lemma Resolve_no_key:
  "cache_key w bs descriptorID = [] \<Longrightarrow>
   InlineMethodResolver_Resolve w r bs descriptorID service method = (Inl ErrEmptyDescriptorID, r)"
  by (simp add: InlineMethodResolver_Resolve_def)

lemma Resolve_cached:
  "cache_key w bs descriptorID = key \<Longrightarrow> key \<noteq> [] \<Longrightarrow> pools r key = Some pool \<Longrightarrow>
   InlineMethodResolver_Resolve w r bs descriptorID service method =
     (case InlineDescriptorPool_Resolve pool service method of
        Inl err \<Rightarrow> (Inl err, r) | Inr rm \<Rightarrow> (Inr (rm, key), r))"
  by (simp add: InlineMethodResolver_Resolve_def)

lemma Resolve_not_found:
  "cache_key w [] descriptorID = key \<Longrightarrow> key \<noteq> [] \<Longrightarrow> pools r key = None \<Longrightarrow>
   InlineMethodResolver_Resolve w r [] descriptorID service method =
     (Inl (ErrDescriptorNotFound key), r)"
  by (simp add: InlineMethodResolver_Resolve_def)

lemma Resolve_parse_error:
  "cache_key w bs descriptorID = key \<Longrightarrow> bs \<noteq> [] \<Longrightarrow> pools r key = None \<Longrightarrow>
   newInlineDescriptorPool w bs = Inl err \<Longrightarrow>
   InlineMethodResolver_Resolve w r bs descriptorID service method = (Inl err, r)"
  using cache_key_Nil_iff [of w bs descriptorID]
  by (auto simp add: InlineMethodResolver_Resolve_def)

lemma Resolve_fresh:
  "cache_key w bs descriptorID = key \<Longrightarrow> bs \<noteq> [] \<Longrightarrow> pools r key = None \<Longrightarrow>
   newInlineDescriptorPool w bs = Inr pool \<Longrightarrow>
   InlineMethodResolver_Resolve w r bs descriptorID service method =
     (case InlineDescriptorPool_Resolve pool service method of
        Inl err \<Rightarrow> (Inl err, r\<lparr>pools := (pools r)(key \<mapsto> pool)\<rparr>)
      | Inr rm \<Rightarrow> (Inr (rm, key), r\<lparr>pools := (pools r)(key \<mapsto> pool)\<rparr>))"
  using cache_key_Nil_iff [of w bs descriptorID]
  by (auto simp add: InlineMethodResolver_Resolve_def split: sum.splits)

lemma Resolve_pools_other:
  "k \<noteq> cache_key w bs descriptorID \<Longrightarrow>
   pools (snd (InlineMethodResolver_Resolve w r bs descriptorID service method)) k = pools r k"
  by (auto simp add: InlineMethodResolver_Resolve_def Let_def split: sum.splits)

lemma Resolve_pools_kept:
  "pools r k = Some pool \<Longrightarrow>
   pools (snd (InlineMethodResolver_Resolve w r bs descriptorID service method)) k = Some pool"
  by (auto simp add: InlineMethodResolver_Resolve_def Let_def split: sum.splits)

lemma calls_pools_kept:
  "pools r k = Some pool \<Longrightarrow> pools (InlineMethodResolver_calls w r calls) k = Some pool"
  by (induction calls arbitrary: r) (simp_all add: Resolve_pools_kept)

lemma Resolve_pools_none:
  "pools r k = None \<Longrightarrow> (bs \<noteq> [] \<Longrightarrow> cache_key w bs descriptorID \<noteq> k) \<Longrightarrow>
   pools (snd (InlineMethodResolver_Resolve w r bs descriptorID service method)) k = None"
  by (auto simp add: InlineMethodResolver_Resolve_def Let_def split: sum.splits)

lemma calls_pools_none:
  "pools r k = None \<Longrightarrow>
   \<forall>c \<in> set calls. call_bytes c \<noteq> [] \<longrightarrow> cache_key w (call_bytes c) (call_id c) \<noteq> k \<Longrightarrow>
   pools (InlineMethodResolver_calls w r calls) k = None"
  by (induction calls arbitrary: r) (simp_all add: Resolve_pools_none)

lemma Resolve_success_pool:
  "fst (InlineMethodResolver_Resolve w r bs descriptorID service method) = Inr (rm, k) \<Longrightarrow>
   k = cache_key w bs descriptorID \<and> k \<noteq> [] \<and>
   (\<exists>pool. pools (snd (InlineMethodResolver_Resolve w r bs descriptorID service method)) k = Some pool
           \<and> InlineDescriptorPool_Resolve pool service method = Inr rm)"
  by (auto simp add: InlineMethodResolver_Resolve_def Let_def split: sum.splits if_splits)

lemma pool_Resolve_not_empty_id: "InlineDescriptorPool_Resolve p service method \<noteq> Inl ErrEmptyDescriptorID"
  by (auto simp add: InlineDescriptorPool_Resolve_def select_service_def Let_def
      split: prod.splits sum.splits option.splits if_splits)

lemma newInlineDescriptorPool_not_empty_id: "newInlineDescriptorPool w bs \<noteq> Inl ErrEmptyDescriptorID"
  by (auto simp add: newInlineDescriptorPool_def split: sum.splits)


text \<open>
  C4: \<open>InlineMethodResolver.Resolve\<close> derives its cache key as follows. A non-empty
  \<open>descriptorID\<close> is used verbatim and returned as the key used; with an empty
  \<open>descriptorID\<close> and non-empty bytes the key is the hex-encoded SHA-256 digest of the
  bytes; with both empty, \<open>Resolve\<close> fails with "empty descriptor id" and leaves the cache
  as it is. That the key is the slot used shows in what \<open>Resolve\<close> returns, in the one
  slot it may write, and in the slot whose absence gives "descriptor not found".
\<close>

theorem C4_cache_key_derivation:
  assumes "key = (if descriptorID \<noteq> [] then descriptorID
                  else hex_EncodeToString (slice_of_byte32 (Sum256 w bs)))"
    and "res = InlineMethodResolver_Resolve w r bs descriptorID service method"
  shows "(descriptorID = [] \<and> bs = [] \<longrightarrow> res = (Inl ErrEmptyDescriptorID, r))
       \<and> (descriptorID \<noteq> [] \<or> bs \<noteq> [] \<longrightarrow>
            key \<noteq> [] \<and> fst res \<noteq> Inl ErrEmptyDescriptorID
          \<and> (\<forall>rm k. fst res = Inr (rm, k) \<longrightarrow> k = key)
          \<and> (\<forall>k. k \<noteq> key \<longrightarrow> pools (snd res) k = pools r k)
          \<and> (bs = [] \<longrightarrow> snd res = r)
          \<and> (bs = [] \<longrightarrow> pools r key = None \<longrightarrow> fst res = Inl (ErrDescriptorNotFound key))
          \<and> (\<forall>pool. bs \<noteq> [] \<longrightarrow> pools r key = None \<longrightarrow> newInlineDescriptorPool w bs = Inr pool
                \<longrightarrow> pools (snd res) key = Some pool))"
proof -
  have key: "key = cache_key w bs descriptorID" if "descriptorID \<noteq> [] \<or> bs \<noteq> []"
    using that assms(1) by (auto simp: cache_key_def)
  have "res = (Inl ErrEmptyDescriptorID, r)" if "descriptorID = []" "bs = []"
    using that assms(2) by (simp add: Resolve_no_key cache_key_def)
  moreover have "key \<noteq> []" if "descriptorID \<noteq> [] \<or> bs \<noteq> []"
    using that assms(1) by auto
  moreover have "fst res \<noteq> Inl ErrEmptyDescriptorID" if "descriptorID \<noteq> [] \<or> bs \<noteq> []"
    using that cache_key_Nil_iff [of w bs descriptorID] pool_Resolve_not_empty_id
      newInlineDescriptorPool_not_empty_id [of w bs]
    unfolding assms(2) InlineMethodResolver_Resolve_def Let_def
    by (auto split: sum.splits)
  moreover have "k = key" if "descriptorID \<noteq> [] \<or> bs \<noteq> []" "fst res = Inr (rm, k)" for rm k
    using that Resolve_success_pool [of w r bs descriptorID service "method" rm k] key assms(2)
    by simp
  moreover have "pools (snd res) k = pools r k" if "descriptorID \<noteq> [] \<or> bs \<noteq> []" "k \<noteq> key" for k
    using that key assms(2) by (simp add: Resolve_pools_other)
  moreover have "snd res = r" if "bs = []"
    using that unfolding assms(2) InlineMethodResolver_Resolve_def Let_def
    by (auto split: sum.splits)
  moreover have "fst res = Inl (ErrDescriptorNotFound key)"
    if "descriptorID \<noteq> [] \<or> bs \<noteq> []" "bs = []" "pools r key = None"
    using that key assms(2) Resolve_not_found [of w descriptorID key r service "method"]
    by (auto simp: cache_key_empty)
  moreover have "pools (snd res) key = Some pool"
    if "bs \<noteq> []" "pools r key = None" "newInlineDescriptorPool w bs = Inr pool" for pool
    using that key assms(2) Resolve_fresh [of w bs descriptorID key r pool service "method"]
    by (auto split: sum.splits)
  ultimately show ?thesis by blast
qed


theorem C4_cache_key_derivation_witness:
  "InlineMethodResolver_Resolve example_world NewInlineMethodResolver [] [] ''EchoService'' ''Echo''
     = (Inl ErrEmptyDescriptorID, NewInlineMethodResolver)
   \<and> fst (InlineMethodResolver_Resolve example_world NewInlineMethodResolver [] ''k''
            ''EchoService'' ''Echo'') = Inl (ErrDescriptorNotFound ''k'')
   \<and> pools (snd (InlineMethodResolver_Resolve example_world NewInlineMethodResolver [1] ''k''
            ''EchoService'' ''Echo'')) ''k'' \<noteq> None
   \<and> pools (snd (InlineMethodResolver_Resolve example_world NewInlineMethodResolver [1] ''k''
            ''EchoService'' ''Echo'')) ''j'' = None
   \<and> pools (snd (InlineMethodResolver_Resolve example_world NewInlineMethodResolver [1] []
            ''EchoService'' ''Echo'')) (hex_EncodeToString (replicate 32 1)) \<noteq> None"
proof -
  have d: "slice_of_byte32 (Sum256 example_world [1]) = replicate 32 1"
    by (simp add: example_world_def byte32_of_slice_inverse)
  have p: "\<exists>pool. newInlineDescriptorPool example_world [1] = Inr pool"
    by (simp add: newInlineDescriptorPool_def example_world_def)
  have "InlineMethodResolver_Resolve example_world NewInlineMethodResolver [] [] ''EchoService''
          ''Echo'' = (Inl ErrEmptyDescriptorID, NewInlineMethodResolver)"
    using C4_cache_key_derivation [OF refl refl, of "[]" "[]" example_world
        NewInlineMethodResolver "''EchoService''" "''Echo''"]
    by simp
  moreover have "fst (InlineMethodResolver_Resolve example_world NewInlineMethodResolver [] ''k''
                     ''EchoService'' ''Echo'') = Inl (ErrDescriptorNotFound ''k'')"
    using C4_cache_key_derivation [OF refl refl, of "''k''" "[]" example_world
        NewInlineMethodResolver "''EchoService''" "''Echo''"]
    by (simp add: NewInlineMethodResolver_def)
  moreover have "pools (snd (InlineMethodResolver_Resolve example_world NewInlineMethodResolver
            [1] ''k'' ''EchoService'' ''Echo'')) ''k'' \<noteq> None"
    using p C4_cache_key_derivation [OF refl refl, of "''k''" "[1]" example_world
        NewInlineMethodResolver "''EchoService''" "''Echo''"]
    by (auto simp add: NewInlineMethodResolver_def)
  moreover have "pools (snd (InlineMethodResolver_Resolve example_world NewInlineMethodResolver
            [1] ''k'' ''EchoService'' ''Echo'')) ''j'' = None"
    using C4_cache_key_derivation [OF refl refl, of "''k''" "[1]" example_world
        NewInlineMethodResolver "''EchoService''" "''Echo''"]
    by (simp add: NewInlineMethodResolver_def)
  moreover have "pools (snd (InlineMethodResolver_Resolve example_world NewInlineMethodResolver
            [1] [] ''EchoService'' ''Echo'')) (hex_EncodeToString (replicate 32 1)) \<noteq> None"
    using p C4_cache_key_derivation [OF refl refl, of "[]" "[1]" example_world
        NewInlineMethodResolver "''EchoService''" "''Echo''"]
    by (auto simp add: d NewInlineMethodResolver_def)
  ultimately show ?thesis by blast
qed

lemma example_first:
  "fst (InlineMethodResolver_Resolve example_world NewInlineMethodResolver [1] ''k''
          ''echo.EchoService'' ''Echo'')
     = Inr (\<lparr>Method = echo_method, ServiceFQN = ''echo.EchoService''\<rparr>, ''k'')"
  by (simp add: resolve_eval names_eval pool_eval)


text \<open>
  C3: an identifier-only \<open>Resolve\<close> (no bytes) with an identifier under which no bytes
  were ever supplied fails with "descriptor not found for id": this holds after any
  sequence of calls on a new resolver none of which stored bytes under that key. And when
  a resolution with bytes under the identifier returned a Resolved Method, a later
  identifier-only \<open>Resolve\<close> with the same identifier, service and method returns the same
  Resolved Method, whatever calls were made in between.
\<close>

theorem C3_identifier_only_resolution:
  assumes "descriptorID \<noteq> []"
  shows "((\<forall>c \<in> set calls. call_bytes c \<noteq> [] \<longrightarrow>
              cache_key w (call_bytes c) (call_id c) \<noteq> descriptorID) \<longrightarrow>
          InlineMethodResolver_Resolve w
              (InlineMethodResolver_calls w NewInlineMethodResolver calls) [] descriptorID
              service method
            = (Inl (ErrDescriptorNotFound descriptorID),
               InlineMethodResolver_calls w NewInlineMethodResolver calls))
       \<and> (bs \<noteq> [] \<longrightarrow>
          fst (InlineMethodResolver_Resolve w r bs descriptorID service method) = Inr (rm, k) \<longrightarrow>
          InlineMethodResolver_Resolve w
              (InlineMethodResolver_calls w
                 (snd (InlineMethodResolver_Resolve w r bs descriptorID service method)) later)
              [] descriptorID service method
            = (Inr (rm, descriptorID),
               InlineMethodResolver_calls w
                 (snd (InlineMethodResolver_Resolve w r bs descriptorID service method)) later))"
proof (intro conjI impI)
  assume "\<forall>c \<in> set calls. call_bytes c \<noteq> [] \<longrightarrow>
            cache_key w (call_bytes c) (call_id c) \<noteq> descriptorID"
  then have "pools (InlineMethodResolver_calls w NewInlineMethodResolver calls) descriptorID = None"
    by (intro calls_pools_none) (simp_all add: NewInlineMethodResolver_def)
  with assms show "InlineMethodResolver_Resolve w
              (InlineMethodResolver_calls w NewInlineMethodResolver calls) [] descriptorID
              service method
            = (Inl (ErrDescriptorNotFound descriptorID),
               InlineMethodResolver_calls w NewInlineMethodResolver calls)"
    by (intro Resolve_not_found) (simp_all add: cache_key_empty)
next
  define r1 where "r1 = snd (InlineMethodResolver_Resolve w r bs descriptorID service method)"
  define r2 where "r2 = InlineMethodResolver_calls w r1 later"
  assume "bs \<noteq> []"
    and "fst (InlineMethodResolver_Resolve w r bs descriptorID service method) = Inr (rm, k)"
  then obtain pool where "k = cache_key w bs descriptorID"
    and "pools r1 k = Some pool" and "InlineDescriptorPool_Resolve pool service method = Inr rm"
    using Resolve_success_pool [of w r bs descriptorID service "method" rm k] r1_def by blast
  moreover from this assms have "k = descriptorID"
    by (simp add: cache_key_id)
  ultimately have "pools r2 descriptorID = Some pool"
    unfolding r2_def by (simp add: calls_pools_kept)
  with assms \<open>InlineDescriptorPool_Resolve pool service method = Inr rm\<close>
  have "InlineMethodResolver_Resolve w r2 [] descriptorID service method
            = (Inr (rm, descriptorID), r2)"
    using Resolve_cached [of w "[]" descriptorID descriptorID r2 pool service "method"]
    by (simp add: cache_key_empty)
  then show "InlineMethodResolver_Resolve w
              (InlineMethodResolver_calls w
                 (snd (InlineMethodResolver_Resolve w r bs descriptorID service method)) later)
              [] descriptorID service method
            = (Inr (rm, descriptorID),
               InlineMethodResolver_calls w
                 (snd (InlineMethodResolver_Resolve w r bs descriptorID service method)) later)"
    by (simp add: r2_def r1_def)
qed



text \<open>C3 at the echo service: the key \<open>k\<close> before and after its bytes were supplied.\<close>

theorem C3_identifier_only_resolution_witness:
  "InlineMethodResolver_Resolve example_world
       (InlineMethodResolver_calls example_world NewInlineMethodResolver [call_other])
       [] ''k'' ''echo.EchoService'' ''Echo''
     = (Inl (ErrDescriptorNotFound ''k''),
        InlineMethodResolver_calls example_world NewInlineMethodResolver [call_other])
   \<and> InlineMethodResolver_Resolve example_world
       (InlineMethodResolver_calls example_world example_resolver [call_other])
       [] ''k'' ''echo.EchoService'' ''Echo''
     = (Inr (\<lparr>Method = echo_method, ServiceFQN = ''echo.EchoService''\<rparr>, ''k''),
        InlineMethodResolver_calls example_world example_resolver [call_other])"
proof -
  have k: "''k'' \<noteq> []" by simp
  have o: "\<forall>c \<in> set [call_other]. call_bytes c \<noteq> [] \<longrightarrow>
              cache_key example_world (call_bytes c) (call_id c) \<noteq> ''k''"
    by (simp add: call_other_def cache_key_def)
  have b: "[1::byte] \<noteq> []" by simp
  show ?thesis
    using C3_identifier_only_resolution [OF k, of "[call_other]" example_world
        "''echo.EchoService''" "''Echo''" "[1]" NewInlineMethodResolver
        "\<lparr>Method = echo_method, ServiceFQN = ''echo.EchoService''\<rparr>" "''k''" "[call_other]"]
      o b example_first
    unfolding example_resolver_def by blast
qed


text \<open>
  C1: supplying bytes under an identifier already in the cache should parse them into a
  new pool and overwrite the entry, so that a later identifier-only \<open>Resolve\<close> sees the
  new bytes. The code does not: for a key it finds in the cache it neither parses the
  bytes nor writes the entry. Here the key \<open>k\<close> holds the first version of the echo
  service; \<open>Resolve\<close> with the bytes of the second version under \<open>k\<close> answers with the
  method of the first version, leaves the resolver as it was, and so does the
  identifier-only \<open>Resolve\<close> after it.
\<close>

theorem C1_cached_entry_not_overwritten:
  "pools example_resolver ''k'' \<noteq> None
   \<and> fst (InlineMethodResolver_Resolve example_world NewInlineMethodResolver [2] ''k''
            ''echo.EchoService'' ''Echo'')
       = Inr (\<lparr>Method = echo_method_v2, ServiceFQN = ''echo.EchoService''\<rparr>, ''k'')
   \<and> InlineMethodResolver_Resolve example_world example_resolver [2] ''k''
            ''echo.EchoService'' ''Echo''
       = (Inr (\<lparr>Method = echo_method, ServiceFQN = ''echo.EchoService''\<rparr>, ''k''),
          example_resolver)
   \<and> fst (InlineMethodResolver_Resolve example_world
            (snd (InlineMethodResolver_Resolve example_world example_resolver [2] ''k''
                    ''echo.EchoService'' ''Echo''))
            [] ''k'' ''echo.EchoService'' ''Echo'')
       = Inr (\<lparr>Method = echo_method, ServiceFQN = ''echo.EchoService''\<rparr>, ''k'')
   \<and> echo_method \<noteq> echo_method_v2"
proof -
  obtain pool where p: "pools example_resolver ''k'' = Some pool"
    and r: "InlineDescriptorPool_Resolve pool ''echo.EchoService'' ''Echo''
              = Inr \<lparr>Method = echo_method, ServiceFQN = ''echo.EchoService''\<rparr>"
    using Resolve_success_pool [OF example_first] unfolding example_resolver_def by blast
  have c: "InlineMethodResolver_Resolve example_world example_resolver bs ''k''
            ''echo.EchoService'' ''Echo''
       = (Inr (\<lparr>Method = echo_method, ServiceFQN = ''echo.EchoService''\<rparr>, ''k''),
          example_resolver)" for bs
    using Resolve_cached [of example_world bs "''k''" "''k''" example_resolver pool
        "''echo.EchoService''" "''Echo''"] p r
    by (simp add: cache_key_def)
  have "fst (InlineMethodResolver_Resolve example_world NewInlineMethodResolver [2] ''k''
            ''echo.EchoService'' ''Echo'')
       = Inr (\<lparr>Method = echo_method_v2, ServiceFQN = ''echo.EchoService''\<rparr>, ''k'')"
    by (simp add: resolve_eval names_eval pool_eval)
  moreover have "echo_method \<noteq> echo_method_v2"
    by (simp add: echo_method_v2_def echo_method_def)
  ultimately show ?thesis using p c by simp
qed


text \<open>
  C9, as stated, fails for a key that is already in the cache: the bytes do not parse, and
  yet \<open>Resolve\<close> returns the method of the cached pool, not the parse error.
\<close>

theorem C9_cached_key_counterexample:
  "newInlineDescriptorPool example_world [0xFF]
     = Inl (ErrUnmarshal ''cannot parse invalid wire-format data'')
   \<and> fst (InlineMethodResolver_Resolve example_world example_resolver [0xFF] ''k''
            ''echo.EchoService'' ''Echo'')
       = Inr (\<lparr>Method = echo_method, ServiceFQN = ''echo.EchoService''\<rparr>, ''k'')"
proof -
  obtain pool where p: "pools example_resolver ''k'' = Some pool"
    and r: "InlineDescriptorPool_Resolve pool ''echo.EchoService'' ''Echo''
              = Inr \<lparr>Method = echo_method, ServiceFQN = ''echo.EchoService''\<rparr>"
    using Resolve_success_pool [OF example_first] unfolding example_resolver_def by blast
  have "fst (InlineMethodResolver_Resolve example_world example_resolver [0xFF] ''k''
            ''echo.EchoService'' ''Echo'')
       = Inr (\<lparr>Method = echo_method, ServiceFQN = ''echo.EchoService''\<rparr>, ''k'')"
    using Resolve_cached [of example_world "[0xFF]" "''k''" "''k''" example_resolver pool
        "''echo.EchoService''" "''Echo''"] p r
    by (simp add: cache_key_def)
  moreover have "newInlineDescriptorPool example_world [0xFF]
     = Inl (ErrUnmarshal ''cannot parse invalid wire-format data'')"
    by (simp add: newInlineDescriptorPool_def example_world_def)
  ultimately show ?thesis by simp
qed


text \<open>
  C9 (amended): if \<open>Resolve\<close> is called with non-empty bytes that fail to parse, the
  resolver is left unchanged; and when no pool is cached under the derived key, it returns
  the parse error, and a later identifier-only resolution for that key fails with
  "descriptor not found for id".
\<close>

theorem C9_parse_failure_leaves_cache:
  assumes "bs \<noteq> []" and "newInlineDescriptorPool w bs = Inl err"
  shows "snd (InlineMethodResolver_Resolve w r bs descriptorID service method) = r
       \<and> (pools r (cache_key w bs descriptorID) = None \<longrightarrow>
            InlineMethodResolver_Resolve w r bs descriptorID service method = (Inl err, r)
          \<and> InlineMethodResolver_Resolve w r [] (cache_key w bs descriptorID) service' method'
              = (Inl (ErrDescriptorNotFound (cache_key w bs descriptorID)), r))"
proof -
  have n: "cache_key w bs descriptorID \<noteq> []"
    using assms(1) by (simp add: cache_key_Nil_iff)
  have "snd (InlineMethodResolver_Resolve w r bs descriptorID service method) = r"
    using assms(2) unfolding InlineMethodResolver_Resolve_def Let_def
    by (auto split: sum.splits)
  moreover have "InlineMethodResolver_Resolve w r bs descriptorID service method = (Inl err, r)"
    if "pools r (cache_key w bs descriptorID) = None"
    using that assms by (intro Resolve_parse_error [OF refl]) simp_all
  moreover have "InlineMethodResolver_Resolve w r [] (cache_key w bs descriptorID) service' method'
              = (Inl (ErrDescriptorNotFound (cache_key w bs descriptorID)), r)"
    if "pools r (cache_key w bs descriptorID) = None"
    using that n by (intro Resolve_not_found) (simp_all add: cache_key_empty)
  ultimately show ?thesis by blast
qed


text \<open>C9 (amended) at a new resolver, with bytes the decoder rejects.\<close>

theorem C9_parse_failure_leaves_cache_witness:
  "InlineMethodResolver_Resolve example_world NewInlineMethodResolver [0xFF] ''k''
       ''echo.EchoService'' ''Echo''
     = (Inl (ErrUnmarshal ''cannot parse invalid wire-format data''), NewInlineMethodResolver)
   \<and> InlineMethodResolver_Resolve example_world NewInlineMethodResolver [] ''k''
       ''echo.EchoService'' ''Echo''
     = (Inl (ErrDescriptorNotFound ''k''), NewInlineMethodResolver)"
proof -
  have b: "[0xFF::byte] \<noteq> []" by simp
  have e: "newInlineDescriptorPool example_world [0xFF]
     = Inl (ErrUnmarshal ''cannot parse invalid wire-format data'')"
    by (simp add: newInlineDescriptorPool_def example_world_def)
  have n: "pools NewInlineMethodResolver (cache_key example_world [0xFF] ''k'') = None"
    by (simp add: NewInlineMethodResolver_def)
  show ?thesis
    using C9_parse_failure_leaves_cache [OF b e, of NewInlineMethodResolver "''k''"
        "''echo.EchoService''" "''Echo''" "''echo.EchoService''" "''Echo''"] n
    by (simp add: cache_key_def)
qed


section \<open>Properties of the static method resolver\<close>

lemmas static_eval = MethodResolver_Resolve_def NewMethodResolver_def ParseFullMethodName_def
  TrimPrefix_def HasPrefix_def SplitN_slash_2_def methods_in_order_def GetMethods_def







lemma ParseFullMethodName_two_segments:
  "CHR ''/'' \<in> set (TrimPrefix s ''/'') \<Longrightarrow> \<exists>a b. ParseFullMethodName s = Inr (a, b)"
  by (simp add: ParseFullMethodName_def SplitN_slash_2_def Let_def)









section \<open>Properties of the invoker\<close>

text \<open>
  C6: for every request whose resolved method has the client-streaming or the
  server-streaming flag set, on the inline path and on the full-method-name path,
  \<open>Invoke\<close> fails with "streaming method not supported", whatever the target and the body,
  and makes no call on the codec or the network (the list of effects is empty).
\<close>

theorem C6_streaming_rejected:
  "((length (InlineDescriptorSet req) > 0 \<or> DescriptorID req \<noteq> []) \<and> MethodName req \<noteq> []
      \<and> fst (InlineMethodResolver_Resolve w (inlineResolver ivk) (InlineDescriptorSet req)
               (DescriptorID req) (ServiceName req) (MethodName req)) = Inr (rm, key)
      \<and> (IsClientStreaming (Method rm) \<or> IsServerStreaming (Method rm))
    \<longrightarrow> fst (Invoke w rpc ivk (req\<lparr>Target := target, Body := body\<rparr>))
          = Inl (ErrStreamingNotSupported (''/'' @ ServiceFQN rm @ ''/'' @ md_name (Method rm)))
        \<and> snd (snd (Invoke w rpc ivk (req\<lparr>Target := target, Body := body\<rparr>))) = [])
   \<and> (InlineDescriptorSet req = [] \<and> DescriptorID req = [] \<and> FullMethodName req \<noteq> []
      \<and> fst (MethodResolver_Resolve w (resolver ivk) (FullMethodName req)) = Inr md
      \<and> (IsClientStreaming md \<or> IsServerStreaming md)
    \<longrightarrow> fst (Invoke w rpc ivk (req\<lparr>Target := target, Body := body\<rparr>))
          = Inl (ErrStreamingNotSupported (FullMethodName req))
        \<and> snd (snd (Invoke w rpc ivk (req\<lparr>Target := target, Body := body\<rparr>))) = [])"
  by (auto simp add: Invoke_def resolve_request_def Let_def split: prod.splits sum.splits)

lemma watch_inline:
  "fst (InlineMethodResolver_Resolve example_world NewInlineMethodResolver [3] []
          ''StreamService'' ''Watch'')
     = Inr (\<lparr>Method = watch_method, ServiceFQN = ''echo.StreamService''\<rparr>,
            hex_EncodeToString (replicate 32 1))"
proof -
  have d: "slice_of_byte32 (Sum256 example_world [3]) = replicate 32 1"
    by (simp add: example_world_def byte32_of_slice_inverse)
  have n: "cache_key example_world [3] [] = hex_EncodeToString (replicate 32 1)"
    by (simp add: cache_key_def d)
  have p: "pools NewInlineMethodResolver (hex_EncodeToString (replicate 32 1)) = None"
    by (simp add: NewInlineMethodResolver_def)
  obtain pool where q: "newInlineDescriptorPool example_world [3] = Inr pool"
    by (simp add: newInlineDescriptorPool_def example_world_def)
  have "InlineDescriptorPool_Resolve pool ''StreamService'' ''Watch''
     = Inr \<lparr>Method = watch_method, ServiceFQN = ''echo.StreamService''\<rparr>"
    using q by (auto simp add: InlineDescriptorPool_Resolve_def select_service_def
        FindMethodByName_def watch_method_def names_eval pool_eval)
  then show ?thesis
    using Resolve_fresh [OF n _ p q, of "''StreamService''" "''Watch''"] by simp
qed

lemma watch_static:
  "fst (MethodResolver_Resolve example_world (NewMethodResolver ''core'')
          ''/echo.StreamService/Watch'') = Inr watch_method"
  by (simp add: static_eval pool_eval watch_method_def)


text \<open>C6 at the server-streaming method \<open>Watch\<close>, on both paths.\<close>

theorem C6_streaming_rejected_witness:
  "fst (Invoke example_world example_rpc (NewInvoker ''core'' 0) watch_inline_request)
     = Inl (ErrStreamingNotSupported ''/echo.StreamService/Watch'')
   \<and> snd (snd (Invoke example_world example_rpc (NewInvoker ''core'' 0) watch_inline_request)) = []
   \<and> fst (Invoke example_world example_rpc (NewInvoker ''core'' 0) watch_static_request)
     = Inl (ErrStreamingNotSupported ''/echo.StreamService/Watch'')
   \<and> snd (snd (Invoke example_world example_rpc (NewInvoker ''core'' 0) watch_static_request)) = []"
proof -
  have s: "IsServerStreaming watch_method"
    by (simp add: IsServerStreaming_def watch_method_def)
  have i: "watch_inline_request\<lparr>Target := ''localhost:50051'', Body := bytes_of_string ''{}''\<rparr>
             = watch_inline_request"
    by (simp add: watch_inline_request_def)
  have t: "watch_static_request\<lparr>Target := ''localhost:50051'', Body := bytes_of_string ''{}''\<rparr>
             = watch_static_request"
    by (simp add: watch_static_request_def)
  have "fst (Invoke example_world example_rpc (NewInvoker ''core'' 0) watch_inline_request)
     = Inl (ErrStreamingNotSupported ''/echo.StreamService/Watch'')
   \<and> snd (snd (Invoke example_world example_rpc (NewInvoker ''core'' 0) watch_inline_request)) = []"
    using C6_streaming_rejected [where req = watch_inline_request and w = example_world
        and ivk = "NewInvoker ''core'' 0" and rpc = example_rpc
        and rm = "\<lparr>Method = watch_method, ServiceFQN = ''echo.StreamService''\<rparr>"
        and key = "hex_EncodeToString (replicate 32 1)" and target = "''localhost:50051''"
        and body = "bytes_of_string ''{}''"] watch_inline s
    unfolding i by (simp add: watch_inline_request_def NewInvoker_def watch_method_def)
  moreover have "fst (Invoke example_world example_rpc (NewInvoker ''core'' 0) watch_static_request)
     = Inl (ErrStreamingNotSupported ''/echo.StreamService/Watch'')
   \<and> snd (snd (Invoke example_world example_rpc (NewInvoker ''core'' 0) watch_static_request)) = []"
    using C6_streaming_rejected [where req = watch_static_request and w = example_world
        and ivk = "NewInvoker ''core'' 0" and rpc = example_rpc and md = watch_method
        and target = "''localhost:50051''" and body = "bytes_of_string ''{}''"]
      watch_static s
    unfolding t by (simp add: watch_static_request_def NewInvoker_def)
  ultimately show ?thesis by simp
qed


end
